theory Spec2Isabelle
  imports Main "HOL-Library.Word"
begin

unbundle bit_operations_syntax

section \<open>Constants of package hamt32 (hamt32.go)\<close>

text \<open>
  \<^verbatim>\<open>hashSize = unsafe.Sizeof(hashVal(0)) * 8\<close>: \<^verbatim>\<open>hashVal\<close> is a 32 bit unsigned
  integer, so the hash size is 32.
\<close>

type_synonym hashVal = "32 word"

definition hashSize :: nat where
  "hashSize = 32"

definition IndexBits :: nat where
  "IndexBits = 5"

definition DepthLimit :: nat where
  "DepthLimit = hashSize div IndexBits"

definition remainder :: nat where
  "remainder = hashSize - DepthLimit * IndexBits"

definition IndexLimit :: nat where
  "IndexLimit = 2 ^ IndexBits"

definition maxDepth :: nat where
  "maxDepth = DepthLimit - 1"

definition maxIndex :: nat where
  "maxIndex = IndexLimit - 1"

definition DowngradeThreshold :: nat where
  "DowngradeThreshold = IndexLimit * 3 div 8"

definition UpgradeThreshold :: nat where
  "UpgradeThreshold = IndexLimit div 2"

section \<open>Constants of package hamt64 (hamt64.go)\<close>

text \<open>
  \<^verbatim>\<open>nBits = key.BitsPerLevel60\<close> and \<^verbatim>\<open>maxDepth = key.MaxDepth60\<close> come from the
  key package; the package comment fixes them: a 60 bit hash is split into ten numbers
  of 6 bits each, so \<open>nBits = 6\<close> and the depth runs over \<open>0..9\<close>.
\<close>

definition nBits :: nat where
  "nBits = 6"

definition maxDepth60 :: nat where
  "maxDepth60 = 9"

definition tableCapacity :: nat where
  "tableCapacity = 2 ^ nBits"

definition downgradeThreshold :: nat where
  "downgradeThreshold = tableCapacity div 8"

definition upgradeThreshold :: nat where
  "upgradeThreshold = tableCapacity div 2"

section \<open>Thresholds\<close>

lemma hamt32_consts:
  "IndexLimit = 32" "DepthLimit = 6" "maxDepth = 5" "maxIndex = 31" "remainder = 2"
  "DowngradeThreshold = 12" "UpgradeThreshold = 16"
  by (simp_all add: IndexLimit_def DepthLimit_def maxDepth_def maxIndex_def remainder_def
      DowngradeThreshold_def UpgradeThreshold_def IndexBits_def hashSize_def)

lemma hamt64_consts:
  "tableCapacity = 64" "downgradeThreshold = 8" "upgradeThreshold = 32"
  by (simp_all add: tableCapacity_def downgradeThreshold_def upgradeThreshold_def nBits_def)

text \<open>
  C6 (as stated): the thresholds are \<open>UPGRADE = B/2\<close> and \<open>DOWNGRADE = 3B/8\<close>.
  The 64-wide implementation downgrades at \<open>B/8 = 8\<close>, not at \<open>3B/8 = 24\<close>.
\<close>

theorem C6_downgrade64_counterexample:
  "downgradeThreshold \<noteq> tableCapacity * 3 div 8"
  by (simp add: hamt64_consts)

text \<open>
  C6 (amended): in hamt32 (\<open>B = 32\<close>) the thresholds are \<open>UPGRADE = B/2 = 16\<close> and
  \<open>DOWNGRADE = 3B/8 = 12\<close>; in hamt64 (\<open>B = 64\<close>) they are \<open>UPGRADE = B/2 = 32\<close> and
  \<open>DOWNGRADE = B/8 = 8\<close>; in both implementations \<open>DOWNGRADE < UPGRADE\<close>.
\<close>

theorem C6_thresholds:
  "UpgradeThreshold = IndexLimit div 2 \<and> UpgradeThreshold = 16
   \<and> DowngradeThreshold = 3 * IndexLimit div 8 \<and> DowngradeThreshold = 12
   \<and> upgradeThreshold = tableCapacity div 2 \<and> upgradeThreshold = 32
   \<and> downgradeThreshold = tableCapacity div 8 \<and> downgradeThreshold = 8
   \<and> DowngradeThreshold < UpgradeThreshold
   \<and> downgradeThreshold < upgradeThreshold"
  by (simp add: hamt32_consts hamt64_consts)

end
